theory Spec2Isabelle
  imports Complex_Main "HOL-Library.Sublist"
begin

section \<open>Values shared by the backtester and the paper-trading validator\<close>

text \<open>
  Prices, ratios and percentages are Python or numpy floats in the source; they are
  modelled as finite reals, so a literal such as \<open>0.0012\<close> is the rational number and
  arithmetic does not round. A point in time (a \<open>datetime\<close> or a pandas \<open>Timestamp\<close>)
  is an integer count of microseconds, a \<open>timedelta\<close> is a difference of two such
  counts.
\<close>

type_synonym time = int

definition timedelta_minutes :: "int \<Rightarrow> int" where
  "timedelta_minutes m = m * 60000000"

definition total_seconds :: "int \<Rightarrow> real" where
  "total_seconds d = real_of_int d / 1000000"

datatype py_error = ZeroDivisionError | ValueError | TypeError | AttributeError

section \<open>bidirectional\_ml\_backtester.py\<close>

subsection \<open>Configuration of \<open>BidirectionalBacktester.__init__\<close>\<close>

definition break_even_pct :: real where
  "break_even_pct = 0.001"

definition min_profit_pct :: real where
  "min_profit_pct = 0.0012"

definition max_position_minutes :: int where
  "max_position_minutes = 10"

definition long_ratio_threshold :: real where
  "long_ratio_threshold = 1.25"

definition short_ratio_threshold :: real where
  "short_ratio_threshold = 0.9"

definition short_strong_threshold :: real where
  "short_strong_threshold = 0.8"

subsection \<open>numpy division\<close>

text \<open>
  The backtester's prices are read from a pandas frame, so they are \<open>numpy.float64\<close>
  values: dividing by zero does not raise, it yields an infinity or a NaN. The result of
  such a division is therefore a value of \<open>np_float\<close>; comparing a NaN is false.
\<close>

datatype np_float = Fin real | PInf | NInf | NaN

definition np_div :: "real \<Rightarrow> real \<Rightarrow> np_float" where
  "np_div a b =
     (if b \<noteq> 0 then Fin (a / b)
      else if 0 < a then PInf
      else if a < 0 then NInf
      else NaN)"

fun np_gt :: "np_float \<Rightarrow> real \<Rightarrow> bool" where
  "np_gt (Fin x) c = (c < x)"
| "np_gt PInf c = True"
| "np_gt NInf c = False"
| "np_gt NaN c = False"

subsection \<open>\<open>determine_trade_direction\<close>\<close>

definition determine_trade_direction :: "real \<Rightarrow> real \<Rightarrow> real \<Rightarrow> string" where
  "determine_trade_direction ratio price_momentum volatility =
     (if ratio \<ge> 2.0 then ''LONG''
      else if ratio \<ge> 1.5 then ''LONG''
      else if ratio \<ge> long_ratio_threshold then ''LONG''
      else if ratio \<le> short_strong_threshold then ''SHORT''
      else if ratio \<le> short_ratio_threshold then ''SHORT''
      else ''NEUTRAL'')"

subsection \<open>\<open>calculate_target_price\<close>\<close>

text \<open>
  \<open>np.random.uniform(low, high)\<close> computes \<open>low + (high - low) * u\<close> from a sample
  \<open>u\<close> of the unit interval. The sample is the extra first argument of the model.
\<close>

definition uniform :: "real \<Rightarrow> real \<Rightarrow> real \<Rightarrow> real" where
  "uniform u low high = low + (high - low) * u"

definition target_pct_of :: "real \<Rightarrow> real \<Rightarrow> real" where
  "target_pct_of u conf =
     (if conf \<ge> 0.8 then uniform u 0.0015 0.002
      else if conf \<ge> 0.6 then uniform u 0.0013 0.0015
      else uniform u 0.0012 0.0013)"

definition calculate_target_price :: "real \<Rightarrow> real \<Rightarrow> string \<Rightarrow> real \<Rightarrow> real" where
  "calculate_target_price u entry dir conf =
     (let target_pct = target_pct_of u conf
      in if dir = ''LONG'' then entry * (1 + target_pct)
         else entry * (1 - target_pct))"

subsection \<open>Trades and price bars\<close>

text \<open>
  A trade is a Python dict. The keys that \<open>simulate_trade\<close> sets are plain fields; the
  keys that only \<open>evaluate_trade_outcome\<close> sets are optional fields, \<open>None\<close> while the
  key is absent.
\<close>

record trade =
  symbol :: string
  direction :: string
  entry_price :: real
  entry_time :: time
  target_price :: real
  break_even_price :: real
  confidence :: real
  psc_ratio :: real
  status :: string
  exit_price :: "real option"
  exit_time :: "time option"
  profit_pct :: "np_float option"
  hit_target :: "bool option"
  success :: "bool option"
  duration_minutes :: "real option"

text \<open>A row of the price frame; \<open>timestamp\<close> is the frame's datetime index.\<close>

record bar =
  timestamp :: time
  open_price :: real
  high_price :: real
  low_price :: real
  close_price :: real
  volume :: real

subsection \<open>\<open>simulate_trade\<close>\<close>

definition simulate_trade ::
  "real \<Rightarrow> string \<Rightarrow> real \<Rightarrow> time \<Rightarrow> real \<Rightarrow> string \<Rightarrow> real \<Rightarrow> trade" where
  "simulate_trade u sym_name entry_close entry_datetime entry_ratio dir conf =
     \<lparr> symbol = sym_name,
       direction = dir,
       entry_price = entry_close,
       entry_time = entry_datetime,
       target_price = calculate_target_price u entry_close dir conf,
       break_even_price =
         (if dir = ''LONG'' then entry_close * (1 + break_even_pct)
          else entry_close * (1 - break_even_pct)),
       confidence = conf,
       psc_ratio = entry_ratio,
       status = ''PENDING'',
       exit_price = None,
       exit_time = None,
       profit_pct = None,
       hit_target = None,
       success = None,
       duration_minutes = None \<rparr>"

subsection \<open>\<open>evaluate_trade_outcome\<close>\<close>

text \<open>The frame restricted to the bars of the position: the local \<open>position_data\<close>.\<close>

definition position_data :: "trade \<Rightarrow> bar list \<Rightarrow> bar list" where
  "position_data t price_data =
     filter (\<lambda>b. entry_time t \<le> timestamp b \<and>
                 timestamp b \<le> entry_time t + timedelta_minutes max_position_minutes)
       price_data"

definition evaluate_trade_outcome :: "trade \<Rightarrow> bar list \<Rightarrow> trade" where
  "evaluate_trade_outcome t price_data =
     (let pd = position_data t price_data
      in if pd = [] then
           t\<lparr> status := ''NO_DATA'',
              exit_price := Some (entry_price t),
              exit_time := Some (entry_time t),
              profit_pct := Some (Fin 0),
              hit_target := Some False,
              duration_minutes := Some 0 \<rparr>
         else
           let (target_hit, exit_p, exit_time_actual) =
                 (if direction t = ''LONG'' then
                    (case filter (\<lambda>b. high_price b \<ge> target_price t) pd of
                       b # _ \<Rightarrow> (True, target_price t, timestamp b)
                     | [] \<Rightarrow> (False, close_price (last pd), timestamp (last pd)))
                  else
                    (case filter (\<lambda>b. low_price b \<le> target_price t) pd of
                       b # _ \<Rightarrow> (True, target_price t, timestamp b)
                     | [] \<Rightarrow> (False, close_price (last pd), timestamp (last pd))));
               profit =
                 (if direction t = ''LONG'' then np_div (exit_p - entry_price t) (entry_price t)
                  else np_div (entry_price t - exit_p) (entry_price t));
               succ = np_gt profit min_profit_pct;
               duration = total_seconds (exit_time_actual - entry_time t) / 60
           in t\<lparr> status := ''COMPLETED'',
                 exit_price := Some exit_p,
                 exit_time := Some exit_time_actual,
                 profit_pct := Some profit,
                 hit_target := Some target_hit,
                 success := Some succ,
                 duration_minutes := Some duration \<rparr>)"

section \<open>paper\_trading\_validator.py\<close>

subsection \<open>Configuration of \<open>PaperTradingValidator.__init__\<close>\<close>

record period =
  period_name :: string
  minutes :: int

definition validation_periods :: "period list" where
  "validation_periods =
     [\<lparr>period_name = ''5min'', minutes = 5\<rparr>,
      \<lparr>period_name = ''10min'', minutes = 10\<rparr>,
      \<lparr>period_name = ''15min'', minutes = 15\<rparr>,
      \<lparr>period_name = ''30min'', minutes = 30\<rparr>]"

text \<open>The entries of the dict \<open>profit_thresholds\<close>.\<close>

definition thr_break_even :: real where
  "thr_break_even = 0.001"

definition thr_min_profit :: real where
  "thr_min_profit = 0.0012"

definition thr_good_profit :: real where
  "thr_good_profit = 0.002"

definition thr_excellent :: real where
  "thr_excellent = 0.005"

subsection \<open>Paper trades, validation rows and the validator's state\<close>

text \<open>
  The dict built by \<open>start_paper_trade\<close> and by \<open>load_active_paper_trades\<close>. The
  fields that share a name with a key of the backtester's trade carry the prefix \<open>pt_\<close>.
  The validator's prices are Python floats: dividing by zero raises.
\<close>

record paper_trade =
  prediction_id :: string
  coin :: string
  pt_direction :: string
  pt_entry_time :: time
  pt_entry_price :: real
  pt_target_price :: real
  pt_confidence :: real
  pt_status :: string
  pt_validation_periods :: "string list"

text \<open>
  One row appended to \<open>prediction_validation.csv\<close>, column by column; the numbers are
  kept as they are before they are formatted.
\<close>

record validation_row =
  row_prediction_id :: string
  row_coin :: string
  row_direction :: string
  row_entry_time :: time
  row_entry_price :: real
  row_confidence :: real
  row_validation_period :: string
  row_exit_time :: time
  row_exit_price :: real
  row_actual_profit_pct :: real
  row_target_hit :: bool
  row_success :: bool
  row_prediction_accuracy :: real
  row_profit_category :: string
  row_ml_prediction_value :: string

text \<open>
  The state: the in-memory list \<open>active_paper_trades\<close>, the rows of the validation
  results file, and the number of price requests made so far. The world outside is an
  \<open>environment\<close>: what the ticker answers to the n-th request for a symbol (\<open>None\<close>
  for a status other than 200 and for any exception), and what \<open>datetime.now()\<close>
  reads when the row of the n-th request is written.
\<close>

record validator =
  active_paper_trades :: "paper_trade list"
  validation_results :: "validation_row list"
  requests :: nat

record environment =
  ticker_price :: "nat \<Rightarrow> string \<Rightarrow> real option"
  wall_clock :: "nat \<Rightarrow> time"

definition py_div :: "real \<Rightarrow> real \<Rightarrow> py_error + real" where
  "py_div a b = (if b = 0 then Inl ZeroDivisionError else Inr (a / b))"

subsection \<open>\<open>get_current_price\<close> and \<open>categorize_profit\<close>\<close>

definition get_current_price :: "environment \<Rightarrow> nat \<Rightarrow> string \<Rightarrow> real option" where
  "get_current_price env n c =
     (let sym_name = (if \<not> suffix ''USDT'' c then c @ ''USDT'' else c)
      in ticker_price env n sym_name)"

definition categorize_profit :: "real \<Rightarrow> string" where
  "categorize_profit p =
     (if p \<ge> thr_excellent then ''EXCELLENT''
      else if p \<ge> thr_good_profit then ''GOOD''
      else if p \<ge> thr_min_profit then ''PROFITABLE''
      else if p \<ge> thr_break_even then ''BREAK_EVEN''
      else ''LOSS'')"

subsection \<open>\<open>validate_trade_at_period\<close>\<close>

text \<open>
  The statements of the \<open>try\<close> block after the price is known: the row to write, or
  the exception raised before the file is opened.
\<close>

definition validation_outcome ::
  "time \<Rightarrow> paper_trade \<Rightarrow> period \<Rightarrow> real \<Rightarrow> py_error + validation_row" where
  "validation_outcome written_at t p current_price =
     (case (if pt_direction t = ''LONG''
            then py_div (current_price - pt_entry_price t) (pt_entry_price t)
            else py_div (pt_entry_price t - current_price) (pt_entry_price t)) of
        Inl e \<Rightarrow> Inl e
      | Inr actual_profit_pct \<Rightarrow>
          (let target_hit =
                 (if pt_direction t = ''LONG'' then current_price \<ge> pt_target_price t
                  else current_price \<le> pt_target_price t);
               succ = (actual_profit_pct \<ge> thr_min_profit);
               profit_category = categorize_profit actual_profit_pct
           in case py_div \<bar>pt_target_price t - pt_entry_price t\<bar> (pt_entry_price t) of
                Inl e \<Rightarrow> Inl e
              | Inr expected_profit \<Rightarrow>
                  (case py_div \<bar>expected_profit - actual_profit_pct\<bar> expected_profit of
                     Inl e \<Rightarrow> Inl e
                   | Inr miss \<Rightarrow>
                       Inr \<lparr> row_prediction_id = prediction_id t,
                             row_coin = coin t,
                             row_direction = pt_direction t,
                             row_entry_time = pt_entry_time t,
                             row_entry_price = pt_entry_price t,
                             row_confidence = pt_confidence t,
                             row_validation_period = period_name p,
                             row_exit_time = written_at,
                             row_exit_price = current_price,
                             row_actual_profit_pct = actual_profit_pct,
                             row_target_hit = target_hit,
                             row_success = succ,
                             row_prediction_accuracy = max 0 (1 - miss),
                             row_profit_category = profit_category,
                             row_ml_prediction_value = ''0.000'' \<rparr>)))"

text \<open>
  The whole method: one price request; no price, or an exception (caught and logged by
  the method's own handler), leaves the results file as it is.
\<close>

definition validate_trade_at_period ::
  "environment \<Rightarrow> validator \<Rightarrow> paper_trade \<Rightarrow> period \<Rightarrow> validator" where
  "validate_trade_at_period env s t p =
     (let n = requests s;
          s1 = s\<lparr>requests := n + 1\<rparr>
      in case get_current_price env n (coin t) of
           None \<Rightarrow> s1
         | Some current_price \<Rightarrow>
             (case validation_outcome (wall_clock env n) t p current_price of
                Inl e \<Rightarrow> s1
              | Inr row \<Rightarrow> s1\<lparr>validation_results := validation_results s1 @ [row]\<rparr>))"

subsection \<open>\<open>validate_predictions\<close>\<close>

text \<open>\<open>max(periods, key=minutes)\<close>: the first period of greatest length.\<close>

fun max_by_minutes :: "period list \<Rightarrow> py_error + period" where
  "max_by_minutes [] = Inl ValueError"
| "max_by_minutes (p # ps) =
     Inr (fold (\<lambda>q best. if minutes q > minutes best then q else best) ps p)"

text \<open>The inner loop over the periods, for one trade at clock time \<open>current_time\<close>.\<close>

fun validate_periods ::
  "environment \<Rightarrow> time \<Rightarrow> paper_trade \<Rightarrow> period list \<Rightarrow> validator \<Rightarrow> validator" where
  "validate_periods env current_time t [] s = s"
| "validate_periods env current_time t (p # ps) s =
     validate_periods env current_time t ps
       (if current_time \<ge> pt_entry_time t + timedelta_minutes (minutes p)
        then validate_trade_at_period env s t p
        else s)"

text \<open>
  The body of the outer loop for one trade: the trade as the loop leaves it, what it
  appends to \<open>trades_to_remove\<close>, and the state. An exception of \<open>max\<close> is caught by
  the handler inside the loop, after the rows of the periods are written.
\<close>

definition validate_one ::
  "environment \<Rightarrow> time \<Rightarrow> paper_trade \<Rightarrow> validator
     \<Rightarrow> paper_trade \<times> paper_trade list \<times> validator" where
  "validate_one env current_time t s =
     (let s1 = validate_periods env current_time t validation_periods s
      in case max_by_minutes validation_periods of
           Inl e \<Rightarrow> (t, [], s1)
         | Inr max_period \<Rightarrow>
             if current_time \<ge> pt_entry_time t + timedelta_minutes (minutes max_period)
             then (let t' = t\<lparr>pt_status := ''COMPLETED''\<rparr> in (t', [t'], s1))
             else (t, [], s1))"

text \<open>
  The outer loop: the trades of the list as the scan leaves them (the status is changed
  in place), the list \<open>trades_to_remove\<close>, and the state.
\<close>

fun scan_trades ::
  "environment \<Rightarrow> time \<Rightarrow> paper_trade list \<Rightarrow> validator
     \<Rightarrow> paper_trade list \<times> paper_trade list \<times> validator" where
  "scan_trades env current_time [] s = ([], [], s)"
| "scan_trades env current_time (t # ts) s =
     (case validate_one env current_time t s of
        (t', removed, s1) \<Rightarrow>
          (case scan_trades env current_time ts s1 of
             (ts', trades_to_remove, s2) \<Rightarrow> (t' # ts', removed @ trades_to_remove, s2)))"

text \<open>\<open>list.remove\<close> deletes the first equal element and raises when there is none.\<close>

definition list_remove :: "'a \<Rightarrow> 'a list \<Rightarrow> py_error + 'a list" where
  "list_remove x xs = (if x \<in> set xs then Inr (remove1 x xs) else Inl ValueError)"

fun remove_trades :: "paper_trade list \<Rightarrow> paper_trade list \<Rightarrow> py_error + paper_trade list" where
  "remove_trades [] active = Inr active"
| "remove_trades (t # ts) active =
     (case list_remove t active of
        Inl e \<Rightarrow> Inl e
      | Inr active' \<Rightarrow> remove_trades ts active')"

definition validate_predictions ::
  "environment \<Rightarrow> time \<Rightarrow> validator \<Rightarrow> py_error + validator" where
  "validate_predictions env current_time s =
     (if active_paper_trades s = [] then Inr s
      else
        (case scan_trades env current_time (active_paper_trades s) s of
           (scanned, trades_to_remove, s1) \<Rightarrow>
             (case remove_trades trades_to_remove scanned of
                Inl e \<Rightarrow> Inl e
              | Inr remaining \<Rightarrow> Inr (s1\<lparr>active_paper_trades := remaining\<rparr>))))"


subsection \<open>\<open>load_active_paper_trades\<close>\<close>

text \<open>
  The parsers of the Python library are parameters: \<open>datetime.fromisoformat\<close> and
  \<open>float\<close>, \<open>None\<close> where they raise \<open>ValueError\<close>. A line of \<open>paper_trades.csv\<close> is
  the list of its fields, in the order of the header
  \<open>prediction_id, coin, direction, entry_time, entry_price, target_price, confidence,
  status, validation_periods\<close>; \<open>csv.DictReader\<close> gives \<open>None\<close> for a column that a
  short line does not reach.
\<close>

record parsers =
  fromisoformat :: "string \<Rightarrow> time option"
  float_of :: "string \<Rightarrow> real option"

text \<open>\<open>str.split(',')\<close>.\<close>

fun split_comma :: "string \<Rightarrow> string list" where
  "split_comma [] = [[]]"
| "split_comma (c # cs) =
     (if c = CHR '','' then [] # split_comma cs
      else (case split_comma cs of
              w # ws \<Rightarrow> (c # w) # ws
            | [] \<Rightarrow> [[c]]))"

text \<open>
  The body of the loop for one line: the exception it raises, or the trade it appends
  (\<open>None\<close> when the line is passed over).
\<close>

fun load_row :: "parsers \<Rightarrow> time \<Rightarrow> string list \<Rightarrow> py_error + paper_trade option" where
  "load_row P current_time (pid # cn # dr # et # ep # tp # cf # st # rest) =
     (if st = ''ACTIVE'' then
        (case fromisoformat P et of
           None \<Rightarrow> Inl ValueError
         | Some entry \<Rightarrow>
             (case max_by_minutes validation_periods of
                Inl e \<Rightarrow> Inl e
              | Inr max_period \<Rightarrow>
                  if current_time < entry + timedelta_minutes (minutes max_period) then
                    (case float_of P ep of
                       None \<Rightarrow> Inl ValueError
                     | Some e_price \<Rightarrow>
                         (case float_of P tp of
                            None \<Rightarrow> Inl ValueError
                          | Some t_price \<Rightarrow>
                              (case float_of P cf of
                                 None \<Rightarrow> Inl ValueError
                               | Some c \<Rightarrow>
                                   (case rest of
                                      [] \<Rightarrow> Inl AttributeError
                                    | vp # _ \<Rightarrow>
                                        Inr (Some \<lparr> prediction_id = pid,
                                                    coin = cn,
                                                    pt_direction = dr,
                                                    pt_entry_time = entry,
                                                    pt_entry_price = e_price,
                                                    pt_target_price = t_price,
                                                    pt_confidence = c,
                                                    pt_status = ''ACTIVE'',
                                                    pt_validation_periods = split_comma vp \<rparr>)))))
                  else Inr None))
      else Inr None)"
| "load_row P current_time short_line = Inr None"

text \<open>
  The loop over the lines. The \<open>try\<close> encloses the whole loop: an exception ends it,
  with the trades appended so far left in the list; the result carries the exception
  that was logged, if any.
\<close>

fun load_rows ::
  "parsers \<Rightarrow> time \<Rightarrow> string list list \<Rightarrow> paper_trade list
     \<Rightarrow> py_error option \<times> paper_trade list" where
  "load_rows P current_time [] active = (None, active)"
| "load_rows P current_time (line # lines) active =
     (case load_row P current_time line of
        Inl e \<Rightarrow> (Some e, active)
      | Inr None \<Rightarrow> load_rows P current_time lines active
      | Inr (Some t) \<Rightarrow> load_rows P current_time lines (active @ [t]))"

text \<open>The file is \<open>None\<close> when it does not exist, else its lines after the header.\<close>

definition load_active_paper_trades ::
  "parsers \<Rightarrow> time \<Rightarrow> string list list option \<Rightarrow> validator \<Rightarrow> validator" where
  "load_active_paper_trades P current_time paper_trades_file s =
     (case paper_trades_file of
        None \<Rightarrow> s
      | Some lines \<Rightarrow>
          s\<lparr>active_paper_trades :=
              snd (load_rows P current_time lines (active_paper_trades s))\<rparr>)"

section \<open>Concrete inputs\<close>

text \<open>
  A SHORT trade entered at 50 with target 49.9 and a LONG trade entered at 100 with
  target 100.18, both at time 0, and four one-minute bars of which the fourth lies
  outside the ten-minute window.
\<close>

definition demo_short :: trade where
  "demo_short = (simulate_trade 0 ''BTCUSDT'' 50 0 0.85 ''SHORT'' 0.5)\<lparr>target_price := 49.9\<rparr>"

definition demo_long :: trade where
  "demo_long = (simulate_trade 0 ''BTCUSDT'' 100 0 1.3 ''LONG'' 0.9)\<lparr>target_price := 100.18\<rparr>"

definition demo_short_path :: "bar list" where
  "demo_short_path =
     [\<lparr>timestamp = 0, open_price = 50, high_price = 50.01, low_price = 49.95,
       close_price = 49.97, volume = 1\<rparr>,
      \<lparr>timestamp = 60000000, open_price = 49.97, high_price = 49.99, low_price = 49.92,
       close_price = 49.93, volume = 1\<rparr>,
      \<lparr>timestamp = 120000000, open_price = 49.93, high_price = 49.97, low_price = 49.93,
       close_price = 49.95, volume = 1\<rparr>,
      \<lparr>timestamp = 900000000, open_price = 49.5, high_price = 49.5, low_price = 49,
       close_price = 49.2, volume = 1\<rparr>]"

definition demo_long_path :: "bar list" where
  "demo_long_path =
     [\<lparr>timestamp = 0, open_price = 100, high_price = 100.05, low_price = 99.9,
       close_price = 100.02, volume = 1\<rparr>,
      \<lparr>timestamp = 60000000, open_price = 100.02, high_price = 100.2, low_price = 100,
       close_price = 100.1, volume = 1\<rparr>,
      \<lparr>timestamp = 120000000, open_price = 100.1, high_price = 100.3, low_price = 100.1,
       close_price = 100.25, volume = 1\<rparr>]"

text \<open>
  A paper trade entered at time 0 at 10000 with target 10020, a second one whose target is
  its entry price, a ticker that always answers 10012 for \<open>BTCUSDT\<close>, and a state
  that holds the first trade only.
\<close>

definition demo_paper_trade :: paper_trade where
  "demo_paper_trade =
     \<lparr> prediction_id = ''BTC_20240101_000000_LONG'',
       coin = ''BTC'',
       pt_direction = ''LONG'',
       pt_entry_time = 0,
       pt_entry_price = 10000,
       pt_target_price = 10020,
       pt_confidence = 0.9,
       pt_status = ''ACTIVE'',
       pt_validation_periods = [''5min'', ''10min'', ''15min'', ''30min''] \<rparr>"

definition flat_paper_trade :: paper_trade where
  "flat_paper_trade = demo_paper_trade\<lparr>pt_target_price := 10000\<rparr>"

definition demo_env :: environment where
  "demo_env =
     \<lparr> ticker_price = (\<lambda>n s. if s = ''BTCUSDT'' then Some 10012 else None),
       wall_clock = (\<lambda>n. 0) \<rparr>"

definition demo_validator :: validator where
  "demo_validator =
     \<lparr> active_paper_trades = [demo_paper_trade], validation_results = [], requests = 0 \<rparr>"

text \<open>The row that the ticker's answer gives for that trade at the period named \<open>nm\<close>.\<close>

definition demo_row :: "string \<Rightarrow> time \<Rightarrow> validation_row" where
  "demo_row nm w =
     \<lparr> row_prediction_id = ''BTC_20240101_000000_LONG'',
       row_coin = ''BTC'',
       row_direction = ''LONG'',
       row_entry_time = 0,
       row_entry_price = 10000,
       row_confidence = 0.9,
       row_validation_period = nm,
       row_exit_time = w,
       row_exit_price = 10012,
       row_actual_profit_pct = 0.0012,
       row_target_hit = False,
       row_success = True,
       row_prediction_accuracy = 0.6,
       row_profit_category = ''PROFITABLE'',
       row_ml_prediction_value = ''0.000'' \<rparr>"

text \<open>
  Parsers that know the strings of the lines below, and three lines of
  \<open>paper_trades.csv\<close>: a well-formed one entered at time 0, one whose entry time does
  not parse, and one that is not active.
\<close>

definition demo_parsers :: parsers where
  "demo_parsers =
     \<lparr> fromisoformat = map_of [(''2024-01-01T00:00:00'', 0)],
       float_of = map_of [(''10000.00000000'', 10000), (''10020.00000000'', 10020), (''0.900'', 0.9)] \<rparr>"

definition good_line :: "string list" where
  "good_line =
     [''BTC_20240101_000000_LONG'', ''BTC'', ''LONG'', ''2024-01-01T00:00:00'',
      ''10000.00000000'', ''10020.00000000'', ''0.900'', ''ACTIVE'', ''5min,10min,15min,30min'']"

definition bad_line :: "string list" where
  "bad_line = good_line[3 := ''yesterday'']"


definition empty_validator :: validator where
  "empty_validator = \<lparr> active_paper_trades = [], validation_results = [], requests = 0 \<rparr>"

section \<open>Properties of the backtester\<close>

lemma find_filter_hd:
  "find P xs = (case filter P xs of [] \<Rightarrow> None | x # _ \<Rightarrow> Some x)"
  by (induction xs) auto

lemma demo_short_position:
  "position_data demo_short demo_short_path = take 3 demo_short_path"
  by (simp add: position_data_def demo_short_def demo_short_path_def simulate_trade_def
        timedelta_minutes_def max_position_minutes_def)

lemma demo_long_position:
  "position_data demo_long demo_long_path = demo_long_path"
  by (simp add: position_data_def demo_long_def demo_long_path_def simulate_trade_def
        timedelta_minutes_def max_position_minutes_def)

text \<open>
  C5. \<open>determine_trade_direction\<close> answers LONG exactly for a ratio of at least 1.25,
  SHORT exactly for a ratio below 1.25 that is at most 0.9, and NEUTRAL exactly in
  between, whatever the momentum and the volatility; both thresholds are inclusive. The
  function is a pure function of its arguments.
\<close>

theorem determine_trade_direction_thresholds:
  "(determine_trade_direction r m v = ''LONG'' \<longleftrightarrow> r \<ge> 1.25) \<and>
   (determine_trade_direction r m v = ''SHORT'' \<longleftrightarrow> r < 1.25 \<and> r \<le> 0.9) \<and>
   (determine_trade_direction r m v = ''NEUTRAL'' \<longleftrightarrow> \<not> r \<ge> 1.25 \<and> \<not> r \<le> 0.9) \<and>
   determine_trade_direction 1.25 m v = ''LONG'' \<and>
   determine_trade_direction 0.9 m v = ''SHORT''"
  by (simp add: determine_trade_direction_def long_ratio_threshold_def
        short_ratio_threshold_def short_strong_threshold_def)

lemma target_pct_of_bands:
  assumes "0 \<le> u" and "u \<le> 1"
  shows "conf \<ge> 0.8 \<longrightarrow> 0.0015 \<le> target_pct_of u conf \<and> target_pct_of u conf \<le> 0.002"
    and "0.6 \<le> conf \<and> conf < 0.8 \<longrightarrow>
           0.0013 \<le> target_pct_of u conf \<and> target_pct_of u conf \<le> 0.0015"
    and "conf < 0.6 \<longrightarrow> 0.0012 \<le> target_pct_of u conf \<and> target_pct_of u conf \<le> 0.0013"
  using assms by (auto simp: target_pct_of_def uniform_def)

text \<open>
  C6. For every sample \<open>u\<close> of the unit interval, the percentage drawn by
  \<open>calculate_target_price\<close> is strictly above the break-even percentage 0.001: it lies
  in [0.0015, 0.002] for a confidence of at least 0.8, in [0.0013, 0.0015] for a
  confidence in [0.6, 0.8), and in [0.0012, 0.0013] below; LONG returns
  \<open>entry * (1 + pct)\<close>, SHORT returns \<open>entry * (1 - pct)\<close>, so that for a positive
  entry price the target is further than \<open>entry * 0.001\<close> from the entry.
\<close>

theorem calculate_target_price_above_break_even:
  assumes "0 \<le> u" and "u \<le> 1"
  shows "break_even_pct < target_pct_of u conf \<and>
         (conf \<ge> 0.8 \<longrightarrow> 0.0015 \<le> target_pct_of u conf \<and> target_pct_of u conf \<le> 0.002) \<and>
         (0.6 \<le> conf \<and> conf < 0.8 \<longrightarrow>
            0.0013 \<le> target_pct_of u conf \<and> target_pct_of u conf \<le> 0.0015) \<and>
         (conf < 0.6 \<longrightarrow> 0.0012 \<le> target_pct_of u conf \<and> target_pct_of u conf \<le> 0.0013) \<and>
         calculate_target_price u entry ''LONG'' conf = entry * (1 + target_pct_of u conf) \<and>
         calculate_target_price u entry ''SHORT'' conf = entry * (1 - target_pct_of u conf) \<and>
         (0 < entry \<longrightarrow>
            entry * break_even_pct < calculate_target_price u entry ''LONG'' conf - entry \<and>
            entry * break_even_pct < entry - calculate_target_price u entry ''SHORT'' conf)"
proof -
  have "0.0012 \<le> target_pct_of u conf"
    using target_pct_of_bands[OF assms, of conf]
    by (cases "conf \<ge> 0.8"; cases "conf \<ge> 0.6") auto
  then have be: "break_even_pct < target_pct_of u conf"
    by (simp add: break_even_pct_def)
  have l: "calculate_target_price u entry ''LONG'' conf = entry * (1 + target_pct_of u conf)"
    by (simp add: calculate_target_price_def)
  have s: "calculate_target_price u entry ''SHORT'' conf = entry * (1 - target_pct_of u conf)"
    by (simp add: calculate_target_price_def)
  have m: "0 < entry \<longrightarrow>
             entry * break_even_pct < calculate_target_price u entry ''LONG'' conf - entry \<and>
             entry * break_even_pct < entry - calculate_target_price u entry ''SHORT'' conf"
    using be by (simp add: l s algebra_simps)
  show ?thesis
    using be l s m target_pct_of_bands[OF assms, of conf] by blast
qed

theorem calculate_target_price_above_break_even_witness:
  "(0::real) \<le> 0.6 \<and> (0.6::real) \<le> 1 \<and>
   target_pct_of 0.6 0.9 = 0.0018 \<and>
   break_even_pct < target_pct_of 0.6 0.9 \<and>
   calculate_target_price 0.6 100 ''LONG'' 0.9 = 100.18 \<and>
   calculate_target_price 0.6 100 ''SHORT'' 0.9 = 99.82 \<and>
   100 * break_even_pct < calculate_target_price 0.6 100 ''LONG'' 0.9 - 100"
proof -
  have a: "(0::real) \<le> 0.6" and b: "(0.6::real) \<le> 1"
    by simp_all
  have p: "target_pct_of 0.6 0.9 = 0.0018"
    by (simp add: target_pct_of_def uniform_def)
  show ?thesis
    using calculate_target_price_above_break_even[OF a b, of "0.9" 100] a b p
    by simp
qed

text \<open>
  C4. When no bar of the frame lies in the ten minutes from the entry time,
  \<open>evaluate_trade_outcome\<close> returns the status NO\_DATA with profit 0, no target hit
  and duration 0, for any direction and target; the key \<open>success\<close> is left as it was
  (absent for a trade made by \<open>simulate_trade\<close>), so the trade is neither a success nor
  a loss.
\<close>

theorem evaluate_trade_outcome_no_data:
  assumes "position_data t price_data = []"
  shows "status (evaluate_trade_outcome t price_data) = ''NO_DATA'' \<and>
         profit_pct (evaluate_trade_outcome t price_data) = Some (Fin 0) \<and>
         hit_target (evaluate_trade_outcome t price_data) = Some False \<and>
         duration_minutes (evaluate_trade_outcome t price_data) = Some 0 \<and>
         success (evaluate_trade_outcome t price_data) = success t"
  using assms by (simp add: evaluate_trade_outcome_def)

theorem evaluate_trade_outcome_no_data_witness:
  "position_data demo_long (drop 3 demo_short_path) = [] \<and>
   status (evaluate_trade_outcome demo_long (drop 3 demo_short_path)) = ''NO_DATA'' \<and>
   profit_pct (evaluate_trade_outcome demo_long (drop 3 demo_short_path)) = Some (Fin 0) \<and>
   hit_target (evaluate_trade_outcome demo_long (drop 3 demo_short_path)) = Some False \<and>
   duration_minutes (evaluate_trade_outcome demo_long (drop 3 demo_short_path)) = Some 0 \<and>
   success (evaluate_trade_outcome demo_long (drop 3 demo_short_path)) = None"
proof -
  have e: "position_data demo_long (drop 3 demo_short_path) = []"
    by (simp add: position_data_def demo_long_def demo_short_path_def simulate_trade_def
          timedelta_minutes_def max_position_minutes_def)
  have n: "success demo_long = None"
    by (simp add: demo_long_def simulate_trade_def)
  show ?thesis
    using evaluate_trade_outcome_no_data[OF e] e n by simp
qed

text \<open>
  C1. When some bar lies in the ten minutes from the entry time: if a bar of that
  window has its favourable extreme across the target (the high at or above it for LONG,
  the low at or below it otherwise, that is for SHORT), the target counts as hit, the exit
  price is the target price itself and the exit time is the time of the first such bar;
  if there is none, the target is not hit and the exit price and time are the close and
  the time of the last bar of the window.
\<close>

theorem evaluate_trade_outcome_exit:
  assumes "position_data t price_data \<noteq> []"
  shows "case find (\<lambda>b. if direction t = ''LONG'' then high_price b \<ge> target_price t
                         else low_price b \<le> target_price t) (position_data t price_data) of
           Some b \<Rightarrow>
             hit_target (evaluate_trade_outcome t price_data) = Some True \<and>
             exit_price (evaluate_trade_outcome t price_data) = Some (target_price t) \<and>
             exit_time (evaluate_trade_outcome t price_data) = Some (timestamp b)
         | None \<Rightarrow>
             hit_target (evaluate_trade_outcome t price_data) = Some False \<and>
             exit_price (evaluate_trade_outcome t price_data) =
               Some (close_price (last (position_data t price_data))) \<and>
             exit_time (evaluate_trade_outcome t price_data) =
               Some (timestamp (last (position_data t price_data)))"
  using assms
  by (simp add: evaluate_trade_outcome_def find_filter_hd Let_def split: list.splits)

theorem evaluate_trade_outcome_exit_witness:
  "position_data demo_short demo_short_path \<noteq> [] \<and>
   hit_target (evaluate_trade_outcome demo_short demo_short_path) = Some False \<and>
   exit_price (evaluate_trade_outcome demo_short demo_short_path) = Some 49.95 \<and>
   exit_time (evaluate_trade_outcome demo_short demo_short_path) = Some 120000000 \<and>
   position_data demo_long demo_long_path \<noteq> [] \<and>
   hit_target (evaluate_trade_outcome demo_long demo_long_path) = Some True \<and>
   exit_price (evaluate_trade_outcome demo_long demo_long_path) = Some 100.18 \<and>
   exit_time (evaluate_trade_outcome demo_long demo_long_path) = Some 60000000"
proof -
  have s: "position_data demo_short demo_short_path \<noteq> []"
    unfolding demo_short_position by (simp add: demo_short_path_def)
  have l: "position_data demo_long demo_long_path \<noteq> []"
    unfolding demo_long_position by (simp add: demo_long_path_def)
  have ds: "direction demo_short = ''SHORT''" "target_price demo_short = 49.9"
    and dl: "direction demo_long = ''LONG''" "target_price demo_long = 100.18"
    by (simp_all add: demo_short_def demo_long_def simulate_trade_def)
  have a: "hit_target (evaluate_trade_outcome demo_short demo_short_path) = Some False \<and>
           exit_price (evaluate_trade_outcome demo_short demo_short_path) = Some 49.95 \<and>
           exit_time (evaluate_trade_outcome demo_short demo_short_path) = Some 120000000"
    using evaluate_trade_outcome_exit[OF s] unfolding demo_short_position ds
    by (simp add: demo_short_path_def)
  have b: "hit_target (evaluate_trade_outcome demo_long demo_long_path) = Some True \<and>
           exit_price (evaluate_trade_outcome demo_long demo_long_path) = Some 100.18 \<and>
           exit_time (evaluate_trade_outcome demo_long demo_long_path) = Some 60000000"
    using evaluate_trade_outcome_exit[OF l] unfolding demo_long_position dl
    by (simp add: demo_long_path_def)
  show ?thesis
    using s l a b by simp
qed

section \<open>Properties of the validator\<close>

subsection \<open>One trade at one period\<close>

lemma max_by_minutes_validation_periods:
  "max_by_minutes validation_periods = Inr \<lparr>period_name = ''30min'', minutes = 30\<rparr>"
  by (simp add: validation_periods_def)

lemma validation_outcome_same_price:
  assumes "pt_target_price t = pt_entry_price t"
  shows "validation_outcome w t p cp = Inl ZeroDivisionError"
  using assms by (simp add: validation_outcome_def py_div_def Let_def)

lemma validation_outcome_row:
  assumes "validation_outcome w t p cp = Inr row"
  shows "row_prediction_id row = prediction_id t"
    and "row_validation_period row = period_name p"
    and "row_success row = (row_actual_profit_pct row \<ge> thr_min_profit)"
  using assms
  by (auto simp: validation_outcome_def Let_def split: sum.splits if_splits)

lemma validate_trade_at_period_results:
  "validation_results (validate_trade_at_period env s t p) =
     validation_results s @
       (case get_current_price env (requests s) (coin t) of
          None \<Rightarrow> []
        | Some cp \<Rightarrow>
            (case validation_outcome (wall_clock env (requests s)) t p cp of
               Inl e \<Rightarrow> []
             | Inr row \<Rightarrow> [row]))"
  by (simp add: validate_trade_at_period_def Let_def split: option.splits sum.splits)

lemma validate_periods_same_price:
  assumes "pt_target_price t = pt_entry_price t"
  shows "validation_results (validate_periods env ct t ps s) = validation_results s"
  using assms
  by (induction ps arbitrary: s)
     (simp_all add: validate_trade_at_period_results validation_outcome_same_price
        split: option.splits)

lemma demo_price: "get_current_price demo_env n ''BTC'' = Some 10012"
  by (simp add: get_current_price_def demo_env_def Let_def suffix_def)

lemma demo_outcome: "validation_outcome w demo_paper_trade p 10012 = Inr (demo_row (period_name p) w)"
  by (simp add: validation_outcome_def demo_paper_trade_def py_div_def Let_def demo_row_def
        thr_min_profit_def categorize_profit_def thr_excellent_def thr_good_profit_def)

lemma demo_validate_trade_at_period:
  "validate_trade_at_period demo_env s demo_paper_trade p =
     s\<lparr>requests := requests s + 1,
       validation_results := validation_results s @ [demo_row (period_name p) 0]\<rparr>"
proof -
  have c: "coin demo_paper_trade = ''BTC''"
    by (simp add: demo_paper_trade_def)
  have w: "wall_clock demo_env (requests s) = 0"
    by (simp add: demo_env_def)
  have g: "get_current_price demo_env (requests s) (coin demo_paper_trade) = Some 10012"
    unfolding c by (rule demo_price)
  show ?thesis
    unfolding validate_trade_at_period_def Let_def g w
    by (simp only: option.simps sum.simps demo_outcome) simp
qed

text \<open>
  C10. A trade whose target price equals its entry price makes the computation of the
  prediction accuracy divide by zero: the method raises \<open>ZeroDivisionError\<close>, its
  handler absorbs it, and the state changes by the price request only, at every period,
  so that the loop over the periods writes no row for that trade. A row is written only
  when the price request succeeds and the target price differs from the entry price.
\<close>

theorem validate_trade_at_period_zero_expected_profit:
  "(pt_target_price t = pt_entry_price t \<longrightarrow>
      validation_outcome w t p cp = Inl ZeroDivisionError \<and>
      validate_trade_at_period env s t p = s\<lparr>requests := requests s + 1\<rparr> \<and>
      validation_results (validate_periods env ct t validation_periods s) =
        validation_results s) \<and>
   (validation_results (validate_trade_at_period env s t p) \<noteq> validation_results s \<longrightarrow>
      get_current_price env (requests s) (coin t) \<noteq> None \<and>
      pt_target_price t \<noteq> pt_entry_price t)"
proof -
  have a: "validate_trade_at_period env s t p = s\<lparr>requests := requests s + 1\<rparr>"
    if "pt_target_price t = pt_entry_price t"
    using that
    by (simp add: validate_trade_at_period_def Let_def validation_outcome_same_price
          split: option.splits)
  have b: "get_current_price env (requests s) (coin t) \<noteq> None \<and>
           pt_target_price t \<noteq> pt_entry_price t"
    if "validation_results (validate_trade_at_period env s t p) \<noteq> validation_results s"
    using that
    by (auto simp: validate_trade_at_period_results validation_outcome_same_price
          split: option.splits)
  show ?thesis
    using a b validation_outcome_same_price validate_periods_same_price by blast
qed

theorem validate_trade_at_period_zero_expected_profit_witness:
  "pt_target_price flat_paper_trade = pt_entry_price flat_paper_trade \<and>
   validation_outcome 0 flat_paper_trade \<lparr>period_name = ''5min'', minutes = 5\<rparr> 10012 =
     Inl ZeroDivisionError \<and>
   validate_trade_at_period demo_env demo_validator flat_paper_trade
     \<lparr>period_name = ''5min'', minutes = 5\<rparr> =
     demo_validator\<lparr>requests := requests demo_validator + 1\<rparr> \<and>
   validation_results (validate_periods demo_env 1800000000 flat_paper_trade
     validation_periods demo_validator) = validation_results demo_validator \<and>
   validation_results (validate_trade_at_period demo_env demo_validator demo_paper_trade
     \<lparr>period_name = ''5min'', minutes = 5\<rparr>) \<noteq> validation_results demo_validator \<and>
   get_current_price demo_env (requests demo_validator) (coin demo_paper_trade) \<noteq> None \<and>
   pt_target_price demo_paper_trade \<noteq> pt_entry_price demo_paper_trade"
proof -
  have f: "pt_target_price flat_paper_trade = pt_entry_price flat_paper_trade"
    by (simp add: flat_paper_trade_def demo_paper_trade_def)
  have d: "validation_results (validate_trade_at_period demo_env demo_validator
             demo_paper_trade \<lparr>period_name = ''5min'', minutes = 5\<rparr>) \<noteq>
           validation_results demo_validator"
    unfolding demo_validate_trade_at_period by simp
  note flat = validate_trade_at_period_zero_expected_profit
                [of flat_paper_trade 0 "\<lparr>period_name = ''5min'', minutes = 5\<rparr>" "10012"
                  demo_env demo_validator 1800000000, THEN conjunct1, rule_format, OF f]
  note live = validate_trade_at_period_zero_expected_profit
                [of demo_paper_trade 0 "\<lparr>period_name = ''5min'', minutes = 5\<rparr>" "10012"
                  demo_env demo_validator 0, THEN conjunct2, rule_format, OF d]
  show ?thesis
    using f flat d live by blast
qed

subsection \<open>One pass over the active trades\<close>

lemma validate_one_parts:
  "fst (validate_one env ct t s) =
     (if ct \<ge> pt_entry_time t + timedelta_minutes 30
      then t\<lparr>pt_status := ''COMPLETED''\<rparr> else t)"
  "fst (snd (validate_one env ct t s)) =
     (if ct \<ge> pt_entry_time t + timedelta_minutes 30
      then [t\<lparr>pt_status := ''COMPLETED''\<rparr>] else [])"
  "snd (snd (validate_one env ct t s)) = validate_periods env ct t validation_periods s"
  by (simp_all add: validate_one_def max_by_minutes_validation_periods Let_def)

lemma scan_trades_lists:
  "fst (scan_trades env ct ts s) =
     map (\<lambda>t. if ct \<ge> pt_entry_time t + timedelta_minutes 30
               then t\<lparr>pt_status := ''COMPLETED''\<rparr> else t) ts \<and>
   fst (snd (scan_trades env ct ts s)) =
     map (\<lambda>t. t\<lparr>pt_status := ''COMPLETED''\<rparr>)
       (filter (\<lambda>t. ct \<ge> pt_entry_time t + timedelta_minutes 30) ts)"
proof (induction ts arbitrary: s)
  case Nil
  show ?case by simp
next
  case (Cons t ts)
  obtain t' rm s1 where v: "validate_one env ct t s = (t', rm, s1)"
    by (cases "validate_one env ct t s") auto
  obtain ts' rms s2 where r: "scan_trades env ct ts s1 = (ts', rms, s2)"
    by (cases "scan_trades env ct ts s1") auto
  from validate_one_parts(1,2)[of env ct t s] v
  have t': "t' = (if ct \<ge> pt_entry_time t + timedelta_minutes 30
                  then t\<lparr>pt_status := ''COMPLETED''\<rparr> else t)"
    and rm: "rm = (if ct \<ge> pt_entry_time t + timedelta_minutes 30
                   then [t\<lparr>pt_status := ''COMPLETED''\<rparr>] else [])"
    by simp_all
  from Cons.IH[of s1] r show ?case
    by (simp add: v r t' rm)
qed

lemma remove_trades_keep:
  assumes "t \<notin> set rm"
  shows "remove_trades rm (t # xs) =
           (case remove_trades rm xs of Inl e \<Rightarrow> Inl e | Inr ys \<Rightarrow> Inr (t # ys))"
  using assms
proof (induction rm arbitrary: xs)
  case Nil
  show ?case by simp
next
  case (Cons r rm)
  then have "r \<noteq> t" and "t \<notin> set rm"
    by auto
  then show ?case
    using Cons.IH[of "remove1 r xs"] by (auto simp: list_remove_def)
qed

lemma remove_trades_scanned:
  "remove_trades
     (map (\<lambda>t. t\<lparr>pt_status := ''COMPLETED''\<rparr>)
        (filter (\<lambda>t. ct \<ge> pt_entry_time t + timedelta_minutes 30) ts))
     (map (\<lambda>t. if ct \<ge> pt_entry_time t + timedelta_minutes 30
                then t\<lparr>pt_status := ''COMPLETED''\<rparr> else t) ts) =
   Inr (filter (\<lambda>t. ct < pt_entry_time t + timedelta_minutes 30) ts)"
proof (induction ts)
  case Nil
  show ?case by simp
next
  case (Cons t ts)
  show ?case
  proof (cases "ct \<ge> pt_entry_time t + timedelta_minutes 30")
    case True
    then show ?thesis
      using Cons.IH by (simp add: list_remove_def)
  next
    case False
    have "t \<notin> set (map (\<lambda>t. t\<lparr>pt_status := ''COMPLETED''\<rparr>)
                    (filter (\<lambda>t. ct \<ge> pt_entry_time t + timedelta_minutes 30) ts))"
      using False by (auto simp: image_iff)
    from remove_trades_keep[OF this] False Cons.IH show ?thesis
      by simp
  qed
qed

lemma validate_predictions_result:
  "validate_predictions env ct s =
     Inr (if active_paper_trades s = [] then s
          else (snd (snd (scan_trades env ct (active_paper_trades s) s)))
                 \<lparr>active_paper_trades :=
                    filter (\<lambda>t. ct < pt_entry_time t + timedelta_minutes 30)
                      (active_paper_trades s)\<rparr>)"
proof (cases "active_paper_trades s = []")
  case True
  then show ?thesis
    by (simp add: validate_predictions_def)
next
  case False
  obtain sc rm s1 where sc: "scan_trades env ct (active_paper_trades s) s = (sc, rm, s1)"
    by (cases "scan_trades env ct (active_paper_trades s) s") auto
  from scan_trades_lists[of env ct "active_paper_trades s" s] sc
  have "remove_trades rm sc =
          Inr (filter (\<lambda>t. ct < pt_entry_time t + timedelta_minutes 30) (active_paper_trades s))"
    using remove_trades_scanned[of ct "active_paper_trades s"] by simp
  then show ?thesis
    using False by (simp add: validate_predictions_def sc)
qed

text \<open>
  C7. A pass at clock time \<open>ct\<close> always returns, and the active list it leaves is the
  list before the pass without the trades whose entry time plus 30 minutes is at or
  before \<open>ct\<close>, whatever the price requests answered. The scan itself leaves the list
  at its length and only sets the status of those trades to COMPLETED; the list
  \<open>trades_to_remove\<close> it builds holds exactly those trades, marked COMPLETED, and is
  applied after the scan.
\<close>

theorem validate_predictions_evicts_expired:
  "(\<exists>s'. validate_predictions env ct s = Inr s' \<and>
         active_paper_trades s' =
           filter (\<lambda>t. ct < pt_entry_time t + timedelta_minutes 30) (active_paper_trades s)) \<and>
   fst (scan_trades env ct (active_paper_trades s) s) =
     map (\<lambda>t. if ct \<ge> pt_entry_time t + timedelta_minutes 30
               then t\<lparr>pt_status := ''COMPLETED''\<rparr> else t) (active_paper_trades s) \<and>
   fst (snd (scan_trades env ct (active_paper_trades s) s)) =
     map (\<lambda>t. t\<lparr>pt_status := ''COMPLETED''\<rparr>)
       (filter (\<lambda>t. ct \<ge> pt_entry_time t + timedelta_minutes 30) (active_paper_trades s))"
proof -
  have "\<exists>s'. validate_predictions env ct s = Inr s' \<and>
          active_paper_trades s' =
            filter (\<lambda>t. ct < pt_entry_time t + timedelta_minutes 30) (active_paper_trades s)"
    by (simp add: validate_predictions_result)
  then show ?thesis
    using scan_trades_lists[of env ct "active_paper_trades s" s] by simp
qed

subsection \<open>Rows written by a pass\<close>








subsection \<open>The success flag\<close>

text \<open>
  C2, as the code has it. In the historical path, for a trade with a non-empty window and
  a non-zero entry price, the success flag is true exactly when the profit percentage is
  strictly greater than 0.0012. In the live path the flag of a written row is true
  exactly when the profit percentage is greater than or equal to 0.0012, as the band
  PROFITABLE of \<open>categorize_profit\<close> is.
\<close>

theorem success_threshold_policy:
  "(position_data t price_data \<noteq> [] \<and> entry_price t \<noteq> 0 \<longrightarrow>
      (\<exists>x. profit_pct (evaluate_trade_outcome t price_data) = Some (Fin x) \<and>
           success (evaluate_trade_outcome t price_data) = Some (0.0012 < x))) \<and>
   (validation_outcome w pt p cp = Inr row \<longrightarrow>
      row_success row = (0.0012 \<le> row_actual_profit_pct row))"
proof -
  have h: "\<exists>x. profit_pct (evaluate_trade_outcome t price_data) = Some (Fin x) \<and>
               success (evaluate_trade_outcome t price_data) = Some (0.0012 < x)"
    if "position_data t price_data \<noteq> []" and "entry_price t \<noteq> 0"
    using that
    by (simp add: evaluate_trade_outcome_def Let_def np_div_def min_profit_pct_def
          split: list.splits)
  have l: "row_success row = (0.0012 \<le> row_actual_profit_pct row)"
    if "validation_outcome w pt p cp = Inr row"
    using validation_outcome_row(3)[OF that] by (simp add: thr_min_profit_def)
  show ?thesis
    using h l by blast
qed

text \<open>
  C2, as stated, fails in the live path: entered at 10000 and priced at 10012, the trade
  has a profit percentage of exactly 0.0012 and its row is a success.
\<close>

theorem live_success_at_threshold:
  "validation_outcome 0 demo_paper_trade \<lparr>period_name = ''5min'', minutes = 5\<rparr> 10012 =
     Inr (demo_row ''5min'' 0) \<and>
   row_actual_profit_pct (demo_row ''5min'' 0) = 0.0012 \<and>
   row_success (demo_row ''5min'' 0) = True"
proof -
  have "validation_outcome 0 demo_paper_trade \<lparr>period_name = ''5min'', minutes = 5\<rparr> 10012 =
          Inr (demo_row (period_name \<lparr>period_name = ''5min'', minutes = 5\<rparr>) 0)"
    by (rule demo_outcome)
  then show ?thesis
    by (simp add: demo_row_def)
qed

theorem success_threshold_policy_witness:
  "position_data demo_short demo_short_path \<noteq> [] \<and> entry_price demo_short \<noteq> 0 \<and>
   profit_pct (evaluate_trade_outcome demo_short demo_short_path) = Some (Fin 0.001) \<and>
   success (evaluate_trade_outcome demo_short demo_short_path) = Some False \<and>
   validation_outcome 0 demo_paper_trade \<lparr>period_name = ''5min'', minutes = 5\<rparr> 10012 =
     Inr (demo_row ''5min'' 0) \<and>
   row_success (demo_row ''5min'' 0) = (0.0012 \<le> row_actual_profit_pct (demo_row ''5min'' 0))"
proof -
  have s: "position_data demo_short demo_short_path \<noteq> []"
    unfolding demo_short_position by (simp add: demo_short_path_def)
  have e: "entry_price demo_short \<noteq> 0"
    by (simp add: demo_short_def simulate_trade_def)
  have o: "validation_outcome 0 demo_paper_trade \<lparr>period_name = ''5min'', minutes = 5\<rparr> 10012 =
             Inr (demo_row ''5min'' 0)"
    using demo_outcome[of 0 "\<lparr>period_name = ''5min'', minutes = 5\<rparr>"] by simp
  have p: "profit_pct (evaluate_trade_outcome demo_short demo_short_path) = Some (Fin 0.001)"
    unfolding evaluate_trade_outcome_def demo_short_position
    by (simp add: demo_short_path_def demo_short_def simulate_trade_def np_div_def)
  note hist = success_threshold_policy
                [of demo_short demo_short_path 0 demo_paper_trade
                  "\<lparr>period_name = ''5min'', minutes = 5\<rparr>" "10012" "demo_row ''5min'' 0",
                 THEN conjunct1, rule_format, OF conjI[OF s e]]
  note live = success_threshold_policy
                [of demo_short demo_short_path 0 demo_paper_trade
                  "\<lparr>period_name = ''5min'', minutes = 5\<rparr>" "10012" "demo_row ''5min'' 0",
                 THEN conjunct2, rule_format, OF o]
  from hist p have "success (evaluate_trade_outcome demo_short demo_short_path) = Some False"
    by auto
  then show ?thesis
    using s e p o live by blast
qed

subsection \<open>Loading the active trades\<close>





lemma load_rows_append:
  "load_rows P ct (xs @ ys) active =
     (case load_rows P ct xs active of
        (Some e, active') \<Rightarrow> (Some e, active')
      | (None, active') \<Rightarrow> load_rows P ct ys active')"
  by (induction xs arbitrary: active) (auto split: sum.splits option.splits)


lemma demo_good_line: "load_row demo_parsers 0 good_line = Inr (Some demo_paper_trade)"
  by (simp add: good_line_def demo_parsers_def max_by_minutes_validation_periods
        timedelta_minutes_def demo_paper_trade_def)


lemma demo_bad_line: "load_row demo_parsers 0 bad_line = Inl ValueError"
  by (simp add: bad_line_def good_line_def demo_parsers_def)


lemma empty_validator_active: "active_paper_trades empty_validator = []"
  by (simp add: empty_validator_def)


text \<open>
  C9, as the code has it. A line whose processing raises is not passed over: it ends the
  loop. The trades restored from the lines before it stay in the list, the lines after
  it are not read, and the exception is caught and logged by the handler around the
  loop, so that loading always returns.
\<close>

theorem load_active_paper_trades_malformed_row:
  assumes "load_row P ct bad = Inl e"
  shows "active_paper_trades (load_active_paper_trades P ct (Some (before @ bad # after)) s) =
           active_paper_trades (load_active_paper_trades P ct (Some before) s) \<and>
         fst (load_rows P ct (before @ bad # after) (active_paper_trades s)) \<noteq> None"
  using assms
  by (simp add: load_active_paper_trades_def load_rows_append split: prod.splits option.splits)

theorem load_active_paper_trades_malformed_row_witness:
  "load_row demo_parsers 0 bad_line = Inl ValueError \<and>
   active_paper_trades
     (load_active_paper_trades demo_parsers 0 (Some ([good_line] @ bad_line # [good_line]))
        empty_validator) = [demo_paper_trade] \<and>
   fst (load_rows demo_parsers 0 ([good_line] @ bad_line # [good_line])
          (active_paper_trades empty_validator)) \<noteq> None"
proof -
  have g: "active_paper_trades
             (load_active_paper_trades demo_parsers 0 (Some [good_line]) empty_validator) =
           [demo_paper_trade]"
    by (simp add: load_active_paper_trades_def demo_good_line empty_validator_active)
  from load_active_paper_trades_malformed_row
         [OF demo_bad_line, of "[good_line]" "[good_line]" empty_validator]
  show ?thesis
    using demo_bad_line g by simp
qed

text \<open>
  C9, as stated, fails: a well-formed active line that follows a line with an unreadable
  entry time is not restored.
\<close>

theorem load_active_paper_trades_stops_at_malformed_row:
  "load_row demo_parsers 0 bad_line = Inl ValueError \<and>
   load_row demo_parsers 0 good_line = Inr (Some demo_paper_trade) \<and>
   active_paper_trades
     (load_active_paper_trades demo_parsers 0 (Some [bad_line, good_line]) empty_validator) = []"
  by (simp add: load_active_paper_trades_def demo_bad_line demo_good_line
        empty_validator_active)

end
